theory Spec2Isabelle
  imports Main
begin

section \<open>Values, errors and the environment of the script\<close>

text \<open>
  The script \<^verbatim>\<open>generate_mock_jwts.py\<close> reads a JSON key store, signs a fixed token with
  every key and prints the tokens.  JSON values are the values Python's \<^verbatim>\<open>json\<close> module
  builds; an object is the list of the items of the resulting \<^verbatim>\<open>dict\<close>, in insertion order.
\<close>

datatype json =
    JNull
  | JBool bool
  | JNum int
  | JStr string
  | JArr "json list"
  | JObj "(string \<times> json) list"

text \<open>The exceptions that can leave \<^verbatim>\<open>main\<close>.\<close>

datatype error =
    FileNotFoundError
  | PermissionError
  | JSONDecodeError
  | AttributeError
  | InvalidJWKValue
  | InvalidJWKType
  | InvalidJWSOperation

text \<open>
  A text is identified up to JSON parsing: it is either no JSON at all or the text of one
  JSON value.  \<^verbatim>\<open>json.load\<close> reads a text, \<^verbatim>\<open>json.dumps\<close> writes one.
\<close>

datatype source_text = NotJson | JsonText json

definition json_load :: "source_text \<Rightarrow> error + json" where
  "json_load t = (case t of NotJson \<Rightarrow> Inl JSONDecodeError | JsonText v \<Rightarrow> Inr v)"

definition json_dumps :: "json \<Rightarrow> source_text" where
  "json_dumps v = JsonText v"

text \<open>\<^verbatim>\<open>data.items()\<close>: only a \<^verbatim>\<open>dict\<close> has the method.\<close>

definition items :: "json \<Rightarrow> error + (string \<times> json) list" where
  "items v = (case v of JObj ms \<Rightarrow> Inr ms | _ \<Rightarrow> Inl AttributeError)"

datatype file_state = Absent | Unreadable | Content source_text

text \<open>
  Paths are lists of components.  A path as the interpreter hands it over in
  \<^verbatim>\<open>__file__\<close> is anchored at the root or relative to the working directory; a resolved
  path is the list of components below the root.  Symbolic links are not modelled.
\<close>

record pypath =
  anchored :: bool
  parts :: "string list"

record env =
  cwd :: "string list"
  script_file :: pypath
  fs :: "string list \<Rightarrow> file_state"

text \<open>\<^verbatim>\<open>os.path.dirname\<close>: the path without its last component.\<close>

definition dirname :: "pypath \<Rightarrow> pypath" where
  "dirname p = p\<lparr>parts := butlast (parts p)\<rparr>"

text \<open>\<^verbatim>\<open>Path.resolve\<close>: make the path absolute and remove \<^verbatim>\<open>.\<close> and \<^verbatim>\<open>..\<close>.\<close>

fun collapse_dots :: "string list \<Rightarrow> string list \<Rightarrow> string list" where
  "collapse_dots acc [] = acc"
| "collapse_dots acc (c # cs) =
     (if c = ''.'' \<or> c = [] then collapse_dots acc cs
      else if c = ''..'' then collapse_dots (butlast acc) cs
      else collapse_dots (acc @ [c]) cs)"

definition resolve :: "string list \<Rightarrow> pypath \<Rightarrow> string list" where
  "resolve wd p = collapse_dots [] ((if anchored p then [] else wd) @ parts p)"

definition PROJECT_DIR :: "env \<Rightarrow> string list" where
  "PROJECT_DIR E = resolve (cwd E) (dirname (script_file E))"

definition KEY_STORE_PATH :: "env \<Rightarrow> string list" where
  "KEY_STORE_PATH E = PROJECT_DIR E @ [''test_data''] @ [''mock_private_keys.json'']"

text \<open>\<^verbatim>\<open>str\<close> of a resolved path.\<close>

definition path_str :: "string list \<Rightarrow> string" where
  "path_str ps = (if ps = [] then ''/'' else concat (map (\<lambda>c. ''/'' @ c) ps))"

section \<open>The signing library\<close>

text \<open>
  The script calls the \<^verbatim>\<open>jwcrypto\<close> library, which is not part of the repository.  Its
  primitives are parameters of the model: the check a JWK has to pass to be accepted,
  the RS256 signature of a signing input under a key (\<open>None\<close> when the cryptographic
  operation fails), and the bytes of the JSON text of a header or claim set.
\<close>

type_synonym jwk = "(string \<times> json) list"

record lib =
  wf_jwk :: "(string \<times> json) list \<Rightarrow> bool"
  rs256 :: "jwk \<Rightarrow> string \<Rightarrow> string option"
  json_encode :: "json \<Rightarrow> string"

text \<open>
  Modelled from the spec: \<^verbatim>\<open>jwk.JWK.from_json\<close> of jwcrypto, whose code is not in the
  repository.  Section 4.1 of the spec: loading fails when an entry is not a well-formed
  JWK; nothing else is checked there.  The key object keeps the members of the JWK.
\<close>

definition JWK_from_json :: "lib \<Rightarrow> source_text \<Rightarrow> error + jwk" where
  "JWK_from_json L t =
     (case t of
        NotJson \<Rightarrow> Inl InvalidJWKValue
      | JsonText v \<Rightarrow>
          (case v of
             JObj ms \<Rightarrow> if wf_jwk L ms then Inr ms else Inl InvalidJWKValue
           | _ \<Rightarrow> Inl InvalidJWKValue))"

text \<open>Base64url without padding (RFC 4648, section 5; RFC 7515, section 2).\<close>

definition b64_alphabet :: string where
  "b64_alphabet = ''ABCDEFGHIJKLMNOPQRSTUVWXYZabcdefghijklmnopqrstuvwxyz0123456789-_''"

definition b64_char :: "nat \<Rightarrow> char" where
  "b64_char i = b64_alphabet ! i"

fun index_of :: "'a \<Rightarrow> 'a list \<Rightarrow> nat option" where
  "index_of x [] = None"
| "index_of x (y # ys) = (if x = y then Some 0 else map_option Suc (index_of x ys))"

definition b64_index :: "char \<Rightarrow> nat option" where
  "b64_index c = index_of c b64_alphabet"

definition pack3 :: "char \<Rightarrow> char \<Rightarrow> char \<Rightarrow> nat" where
  "pack3 a b c = of_char a * 65536 + of_char b * 256 + of_char c"

definition sextet3 :: "nat \<Rightarrow> nat" where "sextet3 n = n div 262144 mod 64"
definition sextet2 :: "nat \<Rightarrow> nat" where "sextet2 n = n div 4096 mod 64"
definition sextet1 :: "nat \<Rightarrow> nat" where "sextet1 n = n div 64 mod 64"
definition sextet0 :: "nat \<Rightarrow> nat" where "sextet0 n = n mod 64"

definition join4 :: "nat \<Rightarrow> nat \<Rightarrow> nat \<Rightarrow> nat \<Rightarrow> nat" where
  "join4 p q r s = p * 262144 + q * 4096 + r * 64 + s"

definition octet2 :: "nat \<Rightarrow> char" where "octet2 n = char_of (n div 65536 mod 256)"
definition octet1 :: "nat \<Rightarrow> char" where "octet1 n = char_of (n div 256 mod 256)"
definition octet0 :: "nat \<Rightarrow> char" where "octet0 n = char_of (n mod 256)"

definition NUL :: char where
  "NUL = char_of (0 :: nat)"

fun base64url_encode :: "string \<Rightarrow> string" where
  "base64url_encode (a # b # c # rest) =
     (let n = pack3 a b c
      in [b64_char (sextet3 n), b64_char (sextet2 n), b64_char (sextet1 n),
          b64_char (sextet0 n)]) @ base64url_encode rest"
| "base64url_encode [a, b] =
     (let n = pack3 a b NUL
      in [b64_char (sextet3 n), b64_char (sextet2 n), b64_char (sextet1 n)])"
| "base64url_encode [a] =
     (let n = pack3 a NUL NUL
      in [b64_char (sextet3 n), b64_char (sextet2 n)])"
| "base64url_encode [] = []"

fun base64url_decode :: "string \<Rightarrow> string option" where
  "base64url_decode (w # x # y # z # rest) =
     (case (b64_index w, b64_index x, b64_index y, b64_index z) of
        (Some p, Some q, Some r, Some s) \<Rightarrow>
          (let n = join4 p q r s
           in map_option (\<lambda>t. [octet2 n, octet1 n, octet0 n] @ t)
                (base64url_decode rest))
      | _ \<Rightarrow> None)"
| "base64url_decode [w, x, y] =
     (case (b64_index w, b64_index x, b64_index y) of
        (Some p, Some q, Some r) \<Rightarrow>
          (let n = join4 p q r 0 in Some [octet2 n, octet1 n])
      | _ \<Rightarrow> None)"
| "base64url_decode [w, x] =
     (case (b64_index w, b64_index x) of
        (Some p, Some q) \<Rightarrow> (let n = join4 p q 0 0 in Some [octet2 n])
      | _ \<Rightarrow> None)"
| "base64url_decode [w] = None"
| "base64url_decode [] = Some []"

text \<open>\<^verbatim>\<open>jwt.JWT(header, claims)\<close>: the token before it is signed.\<close>

record jwt =
  header :: json
  claims :: json

definition JWT :: "json \<Rightarrow> json \<Rightarrow> jwt" where
  "JWT h c = \<lparr>header = h, claims = c\<rparr>"

record jws =
  protected :: string
  payload :: string
  signature :: string

definition is_rsa :: "jwk \<Rightarrow> bool" where
  "is_rsa key = (map_of key ''kty'' = Some (JStr ''RSA''))"

definition has_private_exponent :: "jwk \<Rightarrow> bool" where
  "has_private_exponent key = (map_of key ''d'' \<noteq> None)"

text \<open>
  Modelled from the spec: \<^verbatim>\<open>JWT.make_signed_token\<close> and \<^verbatim>\<open>JWT.serialize\<close> of jwcrypto,
  whose code is not in the repository.  Sections 4.2 and 8 of the spec: signing is RS256
  over header and payload as in RFC 7515; it fails when the key is not RSA-compatible,
  when the JWK lacks the private exponent, or when the signature operation fails; the
  result is \<^verbatim>\<open>base64url(header).base64url(payload).base64url(signature)\<close>.
\<close>

definition make_signed_token :: "lib \<Rightarrow> jwt \<Rightarrow> jwk \<Rightarrow> error + jws" where
  "make_signed_token L t key =
     (if \<not> is_rsa key then Inl InvalidJWKType
      else if \<not> has_private_exponent key then Inl InvalidJWKType
      else
        (let p = base64url_encode (json_encode L (header t));
             c = base64url_encode (json_encode L (claims t))
         in case rs256 L key (p @ ''.'' @ c) of
              None \<Rightarrow> Inl InvalidJWSOperation
            | Some sg \<Rightarrow>
                Inr \<lparr>protected = p, payload = c, signature = base64url_encode sg\<rparr>))"

definition serialize :: "jws \<Rightarrow> string" where
  "serialize s = protected s @ ''.'' @ payload s @ ''.'' @ signature s"

section \<open>The script\<close>

text \<open>
  \<^verbatim>\<open>sign_mock_jwt(key_id, key)\<close>: build the token with the fixed header and payload, sign
  it, return the compact serialization.  An exception of the library is the \<open>Inl\<close> result.
\<close>

definition sign_mock_jwt :: "lib \<Rightarrow> string \<Rightarrow> jwk \<Rightarrow> error + string" where
  "sign_mock_jwt L key_id key =
     (let token = JWT (JObj [(''alg'', JStr ''RS256''), (''kid'', JStr key_id)])
                      (JObj [(''foo'', JStr ''bar''), (''bin'', JStr ''baz'')])
      in case make_signed_token L token key of
           Inl e \<Rightarrow> Inl e
         | Inr signed \<Rightarrow> Inr (serialize signed))"

text \<open>
  What the process does to the outside: a call of \<^verbatim>\<open>open\<close> on a path, and text written
  to standard output.
\<close>

datatype event = OpenFile "string list" | Out string

definition newline :: string where
  "newline = [CHR 0x0A]"

definition print :: "string \<Rightarrow> event list \<Rightarrow> event list" where
  "print s tr = tr @ [Out (s @ newline)]"

text \<open>
  \<^verbatim>\<open>load_private_keys\<close> is a generator function.  Calling it runs none of its body; the
  body runs when the generator is resumed.  The first resumption opens and parses the
  file and then enters the loop over \<^verbatim>\<open>data.items()\<close>; every resumption runs the loop
  up to the next \<^verbatim>\<open>yield\<close>.  A generator that has raised or returned is exhausted.
\<close>

datatype gen = Created | Suspended "(string \<times> json) list" | Exhausted

datatype step = Yield string jwk | Raise error | StopIteration

definition load_private_keys :: gen where
  "load_private_keys = Created"

fun resume_items :: "lib \<Rightarrow> (string \<times> json) list \<Rightarrow> step \<times> gen" where
  "resume_items L [] = (StopIteration, Exhausted)"
| "resume_items L ((key, v) # rest) =
     (case JWK_from_json L (json_dumps v) of
        Inl e \<Rightarrow> (Raise e, Exhausted)
      | Inr k \<Rightarrow> (Yield key k, Suspended rest))"

fun gen_next :: "lib \<Rightarrow> env \<Rightarrow> gen \<Rightarrow> event list \<Rightarrow> (step \<times> gen) \<times> event list" where
  "gen_next L E Created tr =
     (let tr' = tr @ [OpenFile (KEY_STORE_PATH E)]
      in case fs E (KEY_STORE_PATH E) of
           Absent \<Rightarrow> ((Raise FileNotFoundError, Exhausted), tr')
         | Unreadable \<Rightarrow> ((Raise PermissionError, Exhausted), tr')
         | Content t \<Rightarrow>
             (case json_load t of
                Inl e \<Rightarrow> ((Raise e, Exhausted), tr')
              | Inr data \<Rightarrow>
                  (case items data of
                     Inl e \<Rightarrow> ((Raise e, Exhausted), tr')
                   | Inr its \<Rightarrow> (resume_items L its, tr'))))"
| "gen_next L E (Suspended its) tr = (resume_items L its, tr)"
| "gen_next L E Exhausted tr = ((StopIteration, Exhausted), tr)"

text \<open>A bound on the number of resumptions that still yield a pair; it decreases with every pair.\<close>

fun pending :: "env \<Rightarrow> gen \<Rightarrow> nat" where
  "pending E Created =
     (case fs E (KEY_STORE_PATH E) of
        Content t \<Rightarrow>
          (case t of
             JsonText v \<Rightarrow> (case v of JObj its \<Rightarrow> Suc (Suc (length its)) | _ \<Rightarrow> 1)
           | NotJson \<Rightarrow> 1)
      | _ \<Rightarrow> 1)"
| "pending E (Suspended its) = Suc (length its)"
| "pending E Exhausted = 0"

lemma resume_items_pending:
  "resume_items L its = (Yield k key, g) \<Longrightarrow> pending E g < Suc (length its)"
  by (cases its) (auto split: sum.splits)

lemma gen_next_pending:
  "gen_next L E g tr = ((Yield k key, g'), tr') \<Longrightarrow> pending E g' < pending E g"
  by (cases g)
     (auto simp: Let_def json_load_def items_def
           split: file_state.splits source_text.splits json.splits sum.splits
           dest!: resume_items_pending [where E = E])

text \<open>
  The \<^verbatim>\<open>for\<close> loop of \<^verbatim>\<open>main\<close>: resume the generator; stop when it is exhausted; an
  exception of the generator or of \<^verbatim>\<open>sign_mock_jwt\<close> ends the run.
\<close>

function main_loop :: "lib \<Rightarrow> env \<Rightarrow> gen \<Rightarrow> event list \<Rightarrow> event list \<times> (error + unit)" where
  "main_loop L E g tr =
     (case gen_next L E g tr of
        ((StopIteration, g'), tr') \<Rightarrow> (tr', Inr ())
      | ((Raise e, g'), tr') \<Rightarrow> (tr', Inl e)
      | ((Yield key_id key, g'), tr') \<Rightarrow>
          (case sign_mock_jwt L key_id key of
             Inl e \<Rightarrow> (tr', Inl e)
           | Inr token \<Rightarrow>
               main_loop L E g' (print ('' - '' @ key_id @ '': '' @ token) tr')))"
  by pat_completeness auto
termination
  by (relation "measure (\<lambda>(L, E, g, tr). pending E g)") (auto dest: gen_next_pending [OF sym])

definition main :: "lib \<Rightarrow> env \<Rightarrow> event list \<times> (error + unit)" where
  "main L E =
     main_loop L E load_private_keys
       (print (''Generating JWTs using keys discovered in '' @ path_str (KEY_STORE_PATH E)
               @ newline) [])"

text \<open>What is on standard output after a run, and the exit status of the interpreter.\<close>

fun written :: "event \<Rightarrow> string" where
  "written (Out s) = s"
| "written (OpenFile p) = []"

definition stdout :: "event list \<Rightarrow> string" where
  "stdout tr = concat (map written tr)"

definition exit_status :: "error + unit \<Rightarrow> nat" where
  "exit_status r = (case r of Inr u \<Rightarrow> 0 | Inl e \<Rightarrow> 1)"

section \<open>Notions used in the statements\<close>

text \<open>The text of the introductory line, and of the line printed for one key.\<close>

definition intro_line :: "env \<Rightarrow> string" where
  "intro_line E = ''Generating JWTs using keys discovered in '' @ path_str (KEY_STORE_PATH E)"

definition token_line :: "string \<Rightarrow> string \<Rightarrow> string" where
  "token_line key_id token = '' - '' @ key_id @ '': '' @ token"

text \<open>
  What one pass of the loop of \<^verbatim>\<open>main\<close> computes for an entry of the key store: the key
  is parsed, then the token is signed.
\<close>

definition entry_token :: "lib \<Rightarrow> string \<times> json \<Rightarrow> error + string" where
  "entry_token L kv =
     (case JWK_from_json L (json_dumps (snd kv)) of
        Inl e \<Rightarrow> Inl e
      | Inr key \<Rightarrow> sign_mock_jwt L (fst kv) key)"

definition printed :: "(string \<times> json) list \<Rightarrow> string list \<Rightarrow> event list" where
  "printed its toks = map2 (\<lambda>kv tok. Out (token_line (fst kv) tok @ newline)) its toks"

text \<open>\<^verbatim>\<open>str.split(sep)\<close> for a one-character separator, and \<^verbatim>\<open>str.splitlines()\<close>.\<close>

fun split_on :: "char \<Rightarrow> string \<Rightarrow> string list" where
  "split_on sep [] = [[]]"
| "split_on sep (c # cs) =
     (if c = sep then [] # split_on sep cs
      else (case split_on sep cs of
              [] \<Rightarrow> [[c]]
            | p # ps \<Rightarrow> (c # p) # ps))"

definition splitlines :: "string \<Rightarrow> string list" where
  "splitlines s =
     (let ps = split_on (CHR 0x0A) s in if last ps = [] then butlast ps else ps)"

text \<open>
  \<^verbatim>\<open>list(g)\<close> for a generator \<open>g\<close>: resume it until it stops.  The result is the pairs it
  yielded, how it stopped, and the state it was left in.
\<close>

function drain :: "lib \<Rightarrow> env \<Rightarrow> gen \<Rightarrow> event list \<Rightarrow> (string \<times> jwk) list \<times> step \<times> gen" where
  "drain L E g tr =
     (case gen_next L E g tr of
        ((Yield key_id key, g'), tr') \<Rightarrow>
          (case drain L E g' tr' of (ps, s, gf) \<Rightarrow> ((key_id, key) # ps, s, gf))
      | ((Raise e, g'), tr') \<Rightarrow> ([], Raise e, g')
      | ((StopIteration, g'), tr') \<Rightarrow> ([], StopIteration, g'))"
  by pat_completeness auto
termination
  by (relation "measure (\<lambda>(L, E, g, tr). pending E g)") (auto dest: gen_next_pending [OF sym])

text \<open>A key-store entry that is a JWK without the private exponent \<^verbatim>\<open>d\<close>.\<close>

definition lacks_private_exponent :: "json \<Rightarrow> bool" where
  "lacks_private_exponent v = (case v of JObj ms \<Rightarrow> map_of ms ''d'' = None | _ \<Rightarrow> False)"

text \<open>A path component that names a file or directory.\<close>

definition is_file_name :: "string \<Rightarrow> bool" where
  "is_file_name c = (c \<noteq> [] \<and> c \<noteq> ''.'' \<and> c \<noteq> ''..'')"

section \<open>Concrete inputs\<close>

text \<open>
  A stand-in for the library, a key and an environment to run the model on: the script
  lies in \<^verbatim>\<open>/repo\<close>, is started there, and the key store holds the given document.
\<close>

definition demo_lib :: lib where
  "demo_lib = \<lparr>wf_jwk = (\<lambda>ms. map_of ms ''kty'' \<noteq> None),
               rs256 = (\<lambda>key m. Some ''sig''),
               json_encode = (\<lambda>v. ''{}'')\<rparr>"

definition demo_key :: json where
  "demo_key = JObj [(''kty'', JStr ''RSA''), (''n'', JStr ''AQAB''), (''e'', JStr ''AQAB''),
                    (''d'', JStr ''AQAB'')]"

definition demo_public_key :: json where
  "demo_public_key = JObj [(''kty'', JStr ''RSA''), (''n'', JStr ''AQAB''), (''e'', JStr ''AQAB'')]"

definition demo_fs :: "file_state \<Rightarrow> string list \<Rightarrow> file_state" where
  "demo_fs f p = (if p = [''repo'', ''test_data'', ''mock_private_keys.json''] then f else Absent)"

definition demo_env :: "file_state \<Rightarrow> env" where
  "demo_env f =
     \<lparr>cwd = [''repo''],
      script_file = \<lparr>anchored = False, parts = [''generate_mock_jwts.py'']\<rparr>,
      fs = demo_fs f\<rparr>"

text \<open>A stand-in for the library that writes the JSON text of a flat object.\<close>

definition quoted :: "string \<Rightarrow> string" where
  "quoted s = CHR 0x22 # s @ [CHR 0x22]"

definition demo_member :: "string \<times> json \<Rightarrow> string" where
  "demo_member kv =
     quoted (fst kv) @ '':'' @ (case snd kv of JStr s \<Rightarrow> quoted s | _ \<Rightarrow> ''null'')"

fun join_with :: "string \<Rightarrow> string list \<Rightarrow> string" where
  "join_with sep [] = []"
| "join_with sep [x] = x"
| "join_with sep (x # y # ys) = x @ sep @ join_with sep (y # ys)"

definition demo_json_encode :: "json \<Rightarrow> string" where
  "demo_json_encode v =
     (case v of
        JObj ms \<Rightarrow> ''{'' @ join_with '','' (map demo_member ms) @ ''}''
      | JStr s \<Rightarrow> quoted s
      | _ \<Rightarrow> ''null'')"

definition demo_json_lib :: lib where
  "demo_json_lib = demo_lib\<lparr>json_encode := demo_json_encode\<rparr>"

definition demo_header_text :: string where
  "demo_header_text =
     ''{'' @ quoted ''alg'' @ '':'' @ quoted ''RS256'' @ '','' @ quoted ''kid'' @ '':'' @ quoted ''k1'' @ ''}''"

definition demo_payload_text :: string where
  "demo_payload_text =
     ''{'' @ quoted ''foo'' @ '':'' @ quoted ''bar'' @ '','' @ quoted ''bin'' @ '':'' @ quoted ''baz'' @ ''}''"

section \<open>Base64url\<close>

lemma of_char_lt: "(of_char c :: nat) < 256"
  by (metis of_char_mod_256 mod_less_divisor zero_less_numeral)

lemma pack_lt_nat:
  fixes a b c :: nat
  assumes "a < 256" "b < 256" "c < 256"
  shows "a * 65536 + b * 256 + c < 16777216"
proof -
  have a: "a \<le> 255" and b: "b \<le> 255" and c: "c \<le> 255" using assms by simp_all
  have "a * 65536 \<le> 255 * 65536" using a by (rule mult_le_mono1)
  moreover have "b * 256 \<le> 255 * 256" using b by (rule mult_le_mono1)
  ultimately have "a * 65536 + b * 256 + c \<le> 255 * 65536 + 255 * 256 + 255"
    using c by (intro add_mono)
  then show ?thesis by simp
qed

lemma pack3_lt: "pack3 a b c < 16777216"
  unfolding pack3_def by (rule pack_lt_nat [OF of_char_lt of_char_lt of_char_lt])

lemma b64_index_char_all: "\<forall>i \<in> set [0..<64]. b64_index (b64_char i) = Some i"
  by code_simp

lemma b64_index_char: "i < 64 \<Longrightarrow> b64_index (b64_char i) = Some i"
  using b64_index_char_all by simp

lemma sextet_lt: "sextet3 n < 64" "sextet2 n < 64" "sextet1 n < 64" "sextet0 n < 64"
  by (simp_all add: sextet3_def sextet2_def sextet1_def sextet0_def)

lemma b64_index_sextet:
  "b64_index (b64_char (sextet3 n)) = Some (sextet3 n)"
  "b64_index (b64_char (sextet2 n)) = Some (sextet2 n)"
  "b64_index (b64_char (sextet1 n)) = Some (sextet1 n)"
  "b64_index (b64_char (sextet0 n)) = Some (sextet0 n)"
  by (simp_all add: b64_index_char sextet_lt)


lemma sextets_sum4:
  fixes n :: nat
  shows "(n div 262144) * 262144 + (n div 4096 mod 64) * 4096 + (n div 64 mod 64) * 64 + n mod 64 = n"
proof -
  define q1 where "q1 = n div 64"
  define q2 where "q2 = q1 div 64"
  define q3 where "q3 = q2 div 64"
  have a: "n div 4096 = q2" unfolding q2_def q1_def by (simp add: div_mult2_eq)
  have b: "n div 262144 = q3" unfolding q3_def q2_def q1_def by (simp add: div_mult2_eq)
  have e1: "n = q1 * 64 + n mod 64" unfolding q1_def by simp
  have e2: "q1 = q2 * 64 + q1 mod 64" unfolding q2_def by simp
  have e3: "q2 = q3 * 64 + q2 mod 64" unfolding q3_def by simp
  define r1 where "r1 = n mod 64"
  define r2 where "r2 = q1 mod 64"
  define r3 where "r3 = q2 mod 64"
  have "q3 * 262144 + r3 * 4096 + r2 * 64 + r1 = n"
    using e1 e2 e3 unfolding r1_def [symmetric] r2_def [symmetric] r3_def [symmetric]
    by linarith
  then show ?thesis
    unfolding a b r1_def r2_def r3_def q1_def [symmetric] .
qed

lemma join4_sextets:
  assumes "n < 16777216"
  shows "join4 (sextet3 n) (sextet2 n) (sextet1 n) (sextet0 n) = n"
proof -
  have "n div 262144 < 64" using assms by (simp add: less_mult_imp_div_less)
  then have m: "n div 262144 mod 64 = n div 262144" by simp
  show ?thesis
    unfolding join4_def sextet3_def sextet2_def sextet1_def sextet0_def m
    by (rule sextets_sum4)
qed

lemma bytes3:
  fixes a b c :: nat
  assumes "a < 256" "b < 256" "c < 256"
  shows "(a * 65536 + b * 256 + c) div 65536 mod 256 = a"
    and "(a * 65536 + b * 256 + c) div 256 mod 256 = b"
    and "(a * 65536 + b * 256 + c) mod 256 = c"
proof -
  have e: "a * 65536 + b * 256 + c = (a * 256 + b) * 256 + c" by simp
  have "(a * 65536 + b * 256 + c) div 65536 = a"
    using assms by simp
  then show "(a * 65536 + b * 256 + c) div 65536 mod 256 = a" using assms by simp
  have "(a * 65536 + b * 256 + c) div 256 = a * 256 + b" using e assms by simp
  then show "(a * 65536 + b * 256 + c) div 256 mod 256 = b" using assms by simp
  show "(a * 65536 + b * 256 + c) mod 256 = c"
    using e assms by (metis mod_mult_self3 mod_less)
qed

lemma octets_pack3:
  "octet2 (pack3 a b c) = a" "octet1 (pack3 a b c) = b" "octet0 (pack3 a b c) = c"
proof -
  note d = bytes3 [OF of_char_lt [of a] of_char_lt [of b] of_char_lt [of c]]
  show "octet2 (pack3 a b c) = a" unfolding octet2_def pack3_def d(1) by (rule char_of_char)
  show "octet1 (pack3 a b c) = b" unfolding octet1_def pack3_def d(2) by (rule char_of_char)
  show "octet0 (pack3 a b c) = c" unfolding octet0_def pack3_def d(3) by (rule char_of_char)
qed


lemma sextet0_pack2: "sextet0 (pack3 a b NUL) = 0"
proof -
  have "pack3 a b NUL = (of_char a * 1024 + of_char b * 4) * 64"
    by (simp add: pack3_def NUL_def)
  then show ?thesis by (simp add: sextet0_def)
qed

lemma sextet_pack1: "sextet0 (pack3 a NUL NUL) = 0" "sextet1 (pack3 a NUL NUL) = 0"
proof -
  have e: "pack3 a NUL NUL = (of_char a * 16) * 4096"
    by (simp add: pack3_def NUL_def)
  show "sextet0 (pack3 a NUL NUL) = 0" unfolding e by (simp add: sextet0_def)
  have "(of_char a * 16) * 4096 div 64 = (of_char a * 16 :: nat) * 64" by simp
  then show "sextet1 (pack3 a NUL NUL) = 0" unfolding e by (simp add: sextet1_def)
qed

lemma base64url_roundtrip: "base64url_decode (base64url_encode bs) = Some bs"
proof (induction bs rule: base64url_encode.induct)
  case (1 a b c rest)
  then show ?case
    by (simp add: Let_def b64_index_sextet join4_sextets pack3_lt octets_pack3)
next
  case (2 a b)
  have "join4 (sextet3 (pack3 a b NUL)) (sextet2 (pack3 a b NUL)) (sextet1 (pack3 a b NUL)) 0
      = pack3 a b NUL"
    using join4_sextets [OF pack3_lt, of a b NUL] by (simp add: sextet0_pack2)
  then show ?case
    by (simp add: Let_def b64_index_sextet octets_pack3)
next
  case (3 a)
  have "join4 (sextet3 (pack3 a NUL NUL)) (sextet2 (pack3 a NUL NUL)) 0 0 = pack3 a NUL NUL"
    using join4_sextets [OF pack3_lt, of a NUL NUL] by (simp add: sextet_pack1)
  then show ?case
    by (simp add: Let_def b64_index_sextet octets_pack3)
next
  case 4
  show ?case by simp
qed

lemma b64_char_in_alphabet: "i < 64 \<Longrightarrow> b64_char i \<in> set b64_alphabet"
  unfolding b64_char_def by (rule nth_mem) (simp add: b64_alphabet_def)

lemma base64url_encode_alphabet: "set (base64url_encode bs) \<subseteq> set b64_alphabet"
  by (induction bs rule: base64url_encode.induct)
     (simp_all add: Let_def b64_char_in_alphabet sextet_lt)

lemma base64url_encode_no_dot: "CHR ''.'' \<notin> set (base64url_encode bs)"
proof -
  have "CHR ''.'' \<notin> set b64_alphabet" by (simp add: b64_alphabet_def)
  then show ?thesis using base64url_encode_alphabet [of bs] by blast
qed

lemma base64url_encode_no_newline: "CHR 0x0A \<notin> set (base64url_encode bs)"
proof -
  have "CHR 0x0A \<notin> set b64_alphabet" by (simp add: b64_alphabet_def)
  then show ?thesis using base64url_encode_alphabet [of bs] by blast
qed

section \<open>The loop of the driver\<close>

lemma main_loop_nil: "main_loop L E (Suspended []) tr = (tr, Inr ())"
  by simp

lemma main_loop_cons:
  "main_loop L E (Suspended (kv # rest)) tr =
     (case entry_token L kv of
        Inl e \<Rightarrow> (tr, Inl e)
      | Inr tok \<Rightarrow> main_loop L E (Suspended rest) (tr @ [Out (token_line (fst kv) tok @ newline)]))"
  by (cases kv) (simp add: entry_token_def token_line_def print_def split: sum.splits)

lemma main_loop_created:
  "main_loop L E Created tr =
     (case fs E (KEY_STORE_PATH E) of
        Absent \<Rightarrow> (tr @ [OpenFile (KEY_STORE_PATH E)], Inl FileNotFoundError)
      | Unreadable \<Rightarrow> (tr @ [OpenFile (KEY_STORE_PATH E)], Inl PermissionError)
      | Content t \<Rightarrow>
          (case json_load t of
             Inl e \<Rightarrow> (tr @ [OpenFile (KEY_STORE_PATH E)], Inl e)
           | Inr data \<Rightarrow>
               (case items data of
                  Inl e \<Rightarrow> (tr @ [OpenFile (KEY_STORE_PATH E)], Inl e)
                | Inr its \<Rightarrow> main_loop L E (Suspended its) (tr @ [OpenFile (KEY_STORE_PATH E)]))))"
  by (simp add: Let_def split: file_state.splits sum.splits)

lemma main_loop_prefix:
  "list_all2 (\<lambda>kv tok. entry_token L kv = Inr tok) xs toks \<Longrightarrow>
   main_loop L E (Suspended (xs @ ys)) tr = main_loop L E (Suspended ys) (tr @ printed xs toks)"
proof (induction xs toks arbitrary: tr rule: list_all2_induct)
  case Nil
  show ?case by (simp add: printed_def)
next
  case (Cons kv xs tok toks)
  show ?case
    using Cons.hyps(1) Cons.IH [of "tr @ [Out (token_line (fst kv) tok @ newline)]"]
    by (simp add: main_loop_cons printed_def del: main_loop.simps)
qed

lemma gen_next_extends: "\<exists>r. snd (gen_next L E g tr) = tr @ r"
  by (cases g) (simp_all add: Let_def split: file_state.splits sum.splits)

lemma main_loop_extends: "\<exists>rest. fst (main_loop L E g tr) = tr @ rest"
proof (induction L E g tr rule: main_loop.induct)
  case (1 L E g tr)
  obtain s g' tr' where gn: "gen_next L E g tr = ((s, g'), tr')"
    by (metis surj_pair)
  obtain r where r: "tr' = tr @ r"
    using gen_next_extends [of L E g tr] gn by auto
  show ?case
  proof (cases s)
    case (Yield key_id key)
    show ?thesis
    proof (cases "sign_mock_jwt L key_id key")
      case (Inl e)
      then show ?thesis using gn Yield r by simp
    next
      case (Inr token)
      obtain rest where
        "fst (main_loop L E g' (print ('' - '' @ key_id @ '': '' @ token) tr'))
           = print ('' - '' @ key_id @ '': '' @ token) tr' @ rest"
        using "1.IH" [OF gn [symmetric] refl Yield Inr] by blast
      then show ?thesis using gn Yield Inr r by (simp add: print_def)
    qed
  next
    case (Raise e)
    then show ?thesis using gn r by simp
  next
    case StopIteration
    then show ?thesis using gn r by simp
  qed
qed

lemma main_unfold:
  "main L E = main_loop L E Created [Out (intro_line E @ newline @ newline)]"
  by (simp add: main_def load_private_keys_def print_def intro_line_def)

lemma main_object:
  "fs E (KEY_STORE_PATH E) = Content (JsonText (JObj its)) \<Longrightarrow>
   main L E = main_loop L E (Suspended its)
                [Out (intro_line E @ newline @ newline), OpenFile (KEY_STORE_PATH E)]"
  unfolding main_unfold main_loop_created by (simp add: json_load_def items_def)

lemma demo_path: "KEY_STORE_PATH (demo_env f) = [''repo'', ''test_data'', ''mock_private_keys.json'']"
  by (simp add: KEY_STORE_PATH_def PROJECT_DIR_def resolve_def dirname_def demo_env_def)

lemma demo_file: "fs (demo_env f) (KEY_STORE_PATH (demo_env f)) = f"
  by (simp add: demo_path) (simp add: demo_env_def demo_fs_def)

lemma stdout_simps:
  "stdout [] = []" "stdout (Out s # tr) = s @ stdout tr" "stdout (OpenFile p # tr) = stdout tr"
  by (simp_all add: stdout_def)

lemma stdout_append: "stdout (a @ b) = stdout a @ stdout b"
  by (simp add: stdout_def)

lemma stdout_printed:
  "stdout (printed xs toks) = concat (map2 (\<lambda>kv tok. token_line (fst kv) tok @ newline) xs toks)"
  by (simp add: stdout_def printed_def comp_def case_prod_unfold)

lemma lacking_exponent_fails: "lacks_private_exponent (snd kv) \<Longrightarrow> isl (entry_token L kv)"
  by (cases "snd kv")
     (simp_all add: lacks_private_exponent_def entry_token_def JWK_from_json_def json_dumps_def
        sign_mock_jwt_def make_signed_token_def has_private_exponent_def Let_def JWT_def)

lemma split_on_nonempty: "split_on c s \<noteq> []"
  by (induction s) (auto split: list.splits)

lemma split_on_piece: "c \<notin> set l \<Longrightarrow> split_on c (l @ c # rest) = l # split_on c rest"
  by (induction l) (auto split: list.splits)

lemma split_on_single: "c \<notin> set l \<Longrightarrow> split_on c l = [l]"
  by (induction l) (auto split: list.splits)

lemma splitlines_concat:
  "\<forall>l \<in> set ls. CHR 0x0A \<notin> set l \<Longrightarrow> splitlines (concat (map (\<lambda>l. l @ newline) ls)) = ls"
proof (induction ls)
  case Nil
  show ?case by (simp add: splitlines_def)
next
  case (Cons l ls)
  have a: "split_on (CHR 0x0A) (l @ CHR 0x0A # concat (map (\<lambda>l. l @ newline) ls))
      = l # split_on (CHR 0x0A) (concat (map (\<lambda>l. l @ newline) ls))"
    using Cons.prems by (simp add: split_on_piece)
  show ?case
    using Cons a split_on_nonempty [of "CHR 0x0A" "concat (map (\<lambda>l. l @ newline) ls)"]
    by (simp add: splitlines_def newline_def Let_def split: if_splits)
qed

lemma demo_b64: "base64url_encode ''{}'' = ''e30''" "base64url_encode ''sig'' = ''c2ln''"
  by (simp_all add: pack3_def sextet3_def sextet2_def sextet1_def sextet0_def NUL_def b64_char_def
        b64_alphabet_def Let_def)

lemma demo_sign:
  "sign_mock_jwt demo_lib key_id
     [(''kty'', JStr ''RSA''), (''n'', JStr ''AQAB''), (''e'', JStr ''AQAB''), (''d'', JStr ''AQAB'')]
   = Inr ''e30.e30.c2ln''"
  by (simp add: sign_mock_jwt_def make_signed_token_def is_rsa_def has_private_exponent_def
        JWT_def serialize_def demo_lib_def demo_b64 del: base64url_encode.simps)

lemma demo_entry_token: "entry_token demo_lib (key_id, demo_key) = Inr ''e30.e30.c2ln''"
  by (simp add: entry_token_def JWK_from_json_def json_dumps_def demo_key_def demo_sign)
     (simp add: demo_lib_def)

lemma demo_intro:
  "intro_line (demo_env f)
     = ''Generating JWTs using keys discovered in /repo/test_data/mock_private_keys.json''"
  by (simp add: intro_line_def demo_path path_str_def)

lemma serialize_no_newline:
  "make_signed_token L t key = Inr s \<Longrightarrow> CHR 0x0A \<notin> set (serialize s)"
  by (auto simp: make_signed_token_def serialize_def Let_def base64url_encode_no_newline
           split: if_splits option.splits)

lemma entry_token_no_newline: "entry_token L kv = Inr tok \<Longrightarrow> CHR 0x0A \<notin> set tok"
  by (auto simp: entry_token_def sign_mock_jwt_def Let_def
           split: sum.splits dest: serialize_no_newline)

lemma token_lines_no_newline:
  "list_all2 (\<lambda>kv tok. entry_token L kv = Inr tok) its toks \<Longrightarrow>
   \<forall>kv \<in> set its. CHR 0x0A \<notin> set (fst kv) \<Longrightarrow>
   \<forall>l \<in> set (map2 (\<lambda>kv tok. token_line (fst kv) tok) its toks). CHR 0x0A \<notin> set l"
proof (induction its toks rule: list_all2_induct)
  case Nil
  show ?case by simp
next
  case (Cons kv its tok toks)
  then show ?case
    using entry_token_no_newline [of L kv tok] by (simp add: token_line_def)
qed

lemma concat_token_lines:
  "concat (map2 (\<lambda>kv tok. token_line (fst kv) tok @ newline) its toks)
     = concat (map (\<lambda>l. l @ newline) (map2 (\<lambda>kv tok. token_line (fst kv) tok) its toks))"
  by (simp add: comp_def case_prod_unfold)

lemma demo_run_one:
  "main demo_lib (demo_env (Content (JsonText (JObj [(''k1'', demo_key)]))))
     = ([Out (''Generating JWTs using keys discovered in /repo/test_data/mock_private_keys.json''
              @ newline @ newline),
         OpenFile [''repo'', ''test_data'', ''mock_private_keys.json''],
         Out ('' - k1: e30.e30.c2ln'' @ newline)], Inr ())"
  unfolding main_object [OF demo_file] main_loop_cons main_loop_nil
  by (simp add: demo_entry_token demo_intro demo_path token_line_def)

lemma demo_lines_one:
  "splitlines (''Generating JWTs using keys discovered in /repo/test_data/mock_private_keys.json''
        @ newline @ newline @ '' - k1: e30.e30.c2ln'' @ newline)
      = [''Generating JWTs using keys discovered in /repo/test_data/mock_private_keys.json'', [],
          '' - k1: e30.e30.c2ln'']"
  by (simp add: newline_def splitlines_def)

lemma drain_nil: "drain L E (Suspended []) tr = ([], StopIteration, Exhausted)"
  by simp

lemma drain_exhausted: "drain L E Exhausted tr = ([], StopIteration, Exhausted)"
  by simp

lemma drain_cons:
  "JWK_from_json L (json_dumps (snd kv)) = Inr key \<Longrightarrow>
   drain L E (Suspended (kv # rest)) tr =
     (case drain L E (Suspended rest) tr of (ps, s, gf) \<Rightarrow> ((fst kv, key) # ps, s, gf))"
  by (cases kv) simp

lemma drain_created:
  "fs E (KEY_STORE_PATH E) = Content (JsonText (JObj its)) \<Longrightarrow>
   drain L E Created tr = drain L E (Suspended its) (tr @ [OpenFile (KEY_STORE_PATH E)])"
  by (subst drain.simps, subst (2) drain.simps)
     (simp add: Let_def json_load_def items_def del: drain.simps)

lemma drain_all:
  "list_all2 (\<lambda>kv key. JWK_from_json L (json_dumps (snd kv)) = Inr key) its keys \<Longrightarrow>
   drain L E (Suspended its) tr = (zip (map fst its) keys, StopIteration, Exhausted)"
proof (induction its keys rule: list_all2_induct)
  case Nil
  show ?case by simp
next
  case (Cons kv its key keys)
  show ?case
    unfolding drain_cons [OF Cons.hyps(1)] Cons.IH by simp
qed

lemma demo_loads:
  "JWK_from_json demo_lib (json_dumps demo_key)
     = Inr [(''kty'', JStr ''RSA''), (''n'', JStr ''AQAB''), (''e'', JStr ''AQAB''),
            (''d'', JStr ''AQAB'')]"
  "JWK_from_json demo_lib (json_dumps demo_public_key)
     = Inr [(''kty'', JStr ''RSA''), (''n'', JStr ''AQAB''), (''e'', JStr ''AQAB'')]"
  by (simp_all add: JWK_from_json_def json_dumps_def demo_key_def demo_public_key_def demo_lib_def)

lemma split_on_three:
  assumes "c \<notin> set a" "c \<notin> set b" "c \<notin> set d"
  shows "split_on c (a @ [c] @ b @ [c] @ d) = [a, b, d]"
  using assms by (simp add: split_on_piece split_on_single)

lemma demo_json_header:
  "json_encode demo_json_lib (JObj [(''alg'', JStr ''RS256''), (''kid'', JStr ''k1'')])
     = demo_header_text"
  by (simp add: demo_json_lib_def demo_json_encode_def demo_member_def demo_header_text_def)

lemma demo_json_payload:
  "json_encode demo_json_lib (JObj [(''foo'', JStr ''bar''), (''bin'', JStr ''baz'')])
     = demo_payload_text"
  by (simp add: demo_json_lib_def demo_json_encode_def demo_member_def demo_payload_text_def)

lemma demo_b64_header:
  "base64url_encode demo_header_text = ''eyJhbGciOiJSUzI1NiIsImtpZCI6ImsxIn0''"
  by (simp add: demo_header_text_def quoted_def pack3_def sextet3_def sextet2_def sextet1_def
        sextet0_def NUL_def b64_char_def b64_alphabet_def Let_def)

lemma demo_b64_payload:
  "base64url_encode demo_payload_text = ''eyJmb28iOiJiYXIiLCJiaW4iOiJiYXoifQ''"
  by (simp add: demo_payload_text_def quoted_def pack3_def sextet3_def sextet2_def sextet1_def
        sextet0_def NUL_def b64_char_def b64_alphabet_def Let_def)

lemma demo_json_sign:
  "sign_mock_jwt demo_json_lib ''k1''
     [(''kty'', JStr ''RSA''), (''n'', JStr ''AQAB''), (''e'', JStr ''AQAB''), (''d'', JStr ''AQAB'')]
   = Inr ''eyJhbGciOiJSUzI1NiIsImtpZCI6ImsxIn0.eyJmb28iOiJiYXIiLCJiaW4iOiJiYXoifQ.c2ln''"
proof -
  have r: "rs256 demo_json_lib = (\<lambda>key m. Some ''sig'')"
    by (simp add: demo_json_lib_def demo_lib_def)
  show ?thesis
    unfolding sign_mock_jwt_def make_signed_token_def JWT_def serialize_def Let_def
    by (simp add: is_rsa_def has_private_exponent_def demo_json_header demo_json_payload
          demo_b64_header demo_b64_payload demo_b64 r del: base64url_encode.simps)
qed

lemma collapse_dots_append: "collapse_dots acc (xs @ ys) = collapse_dots (collapse_dots acc xs) ys"
  by (induction xs arbitrary: acc) simp_all

lemma collapse_dots_snoc: "is_file_name f \<Longrightarrow> collapse_dots acc (xs @ [f]) = collapse_dots acc xs @ [f]"
  by (simp add: collapse_dots_append is_file_name_def)

lemma resolve_dirname:
  assumes "parts p \<noteq> []" "is_file_name (last (parts p))"
  shows "resolve wd (dirname p) = butlast (resolve wd p)"
proof -
  define pre where "pre = (if anchored p then [] else wd)"
  have ps: "parts p = butlast (parts p) @ [last (parts p)]" using assms(1) by simp
  have "collapse_dots [] (pre @ parts p) = collapse_dots [] ((pre @ butlast (parts p)) @ [last (parts p)])"
    using ps by (metis append_assoc)
  also have "\<dots> = collapse_dots [] (pre @ butlast (parts p)) @ [last (parts p)]"
    using assms(2) by (rule collapse_dots_snoc)
  finally have "butlast (collapse_dots [] (pre @ parts p)) = collapse_dots [] (pre @ butlast (parts p))"
    by simp
  then show ?thesis by (simp add: resolve_def dirname_def pre_def)
qed

lemma gen_next_env:
  "KEY_STORE_PATH E = KEY_STORE_PATH E' \<Longrightarrow> fs E = fs E' \<Longrightarrow>
   gen_next L E g tr = gen_next L E' g tr"
  by (cases g) simp_all

lemma main_loop_env:
  assumes "KEY_STORE_PATH E = KEY_STORE_PATH E'" "fs E = fs E'"
  shows "main_loop L E g tr = main_loop L E' g tr"
  using assms
proof (induction L E g tr rule: main_loop.induct)
  case (1 L E g tr)
  have gn: "gen_next L E g tr = gen_next L E' g tr"
    using "1.prems" by (rule gen_next_env)
  have l: "main_loop L E g tr =
     (case gen_next L E g tr of
        ((StopIteration, g'), tr') \<Rightarrow> (tr', Inr ())
      | ((Raise e, g'), tr') \<Rightarrow> (tr', Inl e)
      | ((Yield key_id key, g'), tr') \<Rightarrow>
          (case sign_mock_jwt L key_id key of
             Inl e \<Rightarrow> (tr', Inl e)
           | Inr token \<Rightarrow>
               main_loop L E g' (print ('' - '' @ key_id @ '': '' @ token) tr')))"
    by (rule main_loop.simps)
  have r: "main_loop L E' g tr =
     (case gen_next L E' g tr of
        ((StopIteration, g'), tr') \<Rightarrow> (tr', Inr ())
      | ((Raise e, g'), tr') \<Rightarrow> (tr', Inl e)
      | ((Yield key_id key, g'), tr') \<Rightarrow>
          (case sign_mock_jwt L key_id key of
             Inl e \<Rightarrow> (tr', Inl e)
           | Inr token \<Rightarrow>
               main_loop L E' g' (print ('' - '' @ key_id @ '': '' @ token) tr')))"
    by (rule main_loop.simps)
  show ?case
    unfolding l r gn [symmetric]
    using "1.IH" "1.prems"
    by (auto split: prod.splits step.splits sum.splits simp del: main_loop.simps)
qed

section \<open>The claims\<close>

text \<open>
  C6: when the key-store file is missing, the run ends with the uncaught
  \<^verbatim>\<open>FileNotFoundError\<close>, so with a non-zero exit status, and standard output holds the
  introductory text only: no token line.
\<close>

theorem missing_file_no_tokens:
  assumes "fs E (KEY_STORE_PATH E) = Absent"
  shows "snd (main L E) = Inl FileNotFoundError
       \<and> exit_status (snd (main L E)) \<noteq> 0
       \<and> stdout (fst (main L E)) = intro_line E @ newline @ newline"
  using assms unfolding main_unfold main_loop_created
  by (simp add: stdout_def exit_status_def)

theorem missing_file_no_tokens_witness:
  "fs (demo_env Absent) (KEY_STORE_PATH (demo_env Absent)) = Absent
   \<and> snd (main demo_lib (demo_env Absent)) = Inl FileNotFoundError
   \<and> exit_status (snd (main demo_lib (demo_env Absent))) = 1
   \<and> splitlines (stdout (fst (main demo_lib (demo_env Absent))))
       = [''Generating JWTs using keys discovered in /repo/test_data/mock_private_keys.json'', []]"
proof -
  have h: "fs (demo_env Absent) (KEY_STORE_PATH (demo_env Absent)) = Absent"
    by (rule demo_file)
  have l: "splitlines (intro_line (demo_env Absent) @ newline @ newline)
      = [''Generating JWTs using keys discovered in /repo/test_data/mock_private_keys.json'', []]"
    by (simp add: intro_line_def demo_path path_str_def newline_def splitlines_def)
  show ?thesis
    using h missing_file_no_tokens [OF h, of demo_lib] l
    by (simp add: exit_status_def)
qed

text \<open>
  C9: the introductory line is written before the key store is opened, whatever the file
  is: the first two events of every run are the output of the introductory text and the
  call of \<^verbatim>\<open>open\<close>.  When the file is missing or unreadable the run fails after exactly
  these two events, with the introductory text on standard output.
\<close>

theorem intro_line_precedes_open:
  "(\<exists>rest. fst (main L E)
       = Out (intro_line E @ newline @ newline) # OpenFile (KEY_STORE_PATH E) # rest)
   \<and> (fs E (KEY_STORE_PATH E) = Absent \<or> fs E (KEY_STORE_PATH E) = Unreadable \<longrightarrow>
        fst (main L E) = [Out (intro_line E @ newline @ newline), OpenFile (KEY_STORE_PATH E)]
        \<and> stdout (fst (main L E)) = intro_line E @ newline @ newline
        \<and> isl (snd (main L E)))"
proof (intro conjI impI)
  obtain s g' tr' where gn:
    "gen_next L E Created [Out (intro_line E @ newline @ newline)] = ((s, g'), tr')"
    by (metis surj_pair)
  show "\<exists>rest. fst (main L E)
       = Out (intro_line E @ newline @ newline) # OpenFile (KEY_STORE_PATH E) # rest"
  proof (cases "fs E (KEY_STORE_PATH E)")
    case Absent
    then show ?thesis unfolding main_unfold main_loop_created by simp
  next
    case Unreadable
    then show ?thesis unfolding main_unfold main_loop_created by simp
  next
    case (Content t)
    show ?thesis
    proof (cases "json_load t")
      case (Inl e)
      then show ?thesis using Content unfolding main_unfold main_loop_created by simp
    next
      case (Inr data)
      show ?thesis
      proof (cases "items data")
        case (Inl e)
        then show ?thesis using Content Inr unfolding main_unfold main_loop_created by simp
      next
        case (Inr its)
        obtain rest where "fst (main_loop L E (Suspended its)
            ([Out (intro_line E @ newline @ newline)] @ [OpenFile (KEY_STORE_PATH E)]))
          = ([Out (intro_line E @ newline @ newline)] @ [OpenFile (KEY_STORE_PATH E)]) @ rest"
          using main_loop_extends by blast
        then show ?thesis
          using Content \<open>json_load t = Inr data\<close> Inr
          unfolding main_unfold main_loop_created by simp
      qed
    qed
  qed
next
  assume "fs E (KEY_STORE_PATH E) = Absent \<or> fs E (KEY_STORE_PATH E) = Unreadable"
  then show "fst (main L E) = [Out (intro_line E @ newline @ newline), OpenFile (KEY_STORE_PATH E)]"
    and "stdout (fst (main L E)) = intro_line E @ newline @ newline"
    and "isl (snd (main L E))"
    unfolding main_unfold main_loop_created by (auto simp: stdout_def)
qed

theorem intro_line_precedes_open_witness:
  "fs (demo_env Unreadable) (KEY_STORE_PATH (demo_env Unreadable)) = Unreadable
   \<and> fst (main demo_lib (demo_env Unreadable))
       = [Out (''Generating JWTs using keys discovered in /repo/test_data/mock_private_keys.json''
               @ newline @ newline),
          OpenFile [''repo'', ''test_data'', ''mock_private_keys.json'']]
   \<and> isl (snd (main demo_lib (demo_env Unreadable)))"
proof -
  have h: "fs (demo_env Unreadable) (KEY_STORE_PATH (demo_env Unreadable)) = Unreadable"
    by (rule demo_file)
  have i: "intro_line (demo_env Unreadable)
      = ''Generating JWTs using keys discovered in /repo/test_data/mock_private_keys.json''"
    by (simp add: intro_line_def demo_path path_str_def)
  show ?thesis
    using h intro_line_precedes_open [of demo_lib "demo_env Unreadable"]
    by (simp add: i demo_path)
qed

text \<open>
  C2: when the entries before the k-th are parsed and signed and the k-th entry is a JWK
  without the private exponent, or fails to parse or to sign in any other way, the run
  ends with a non-zero exit status; after the introductory text standard output holds
  the token lines of the entries before the k-th, and nothing for the k-th entry or a
  later one.
\<close>

theorem failing_entry_stops_run:
  assumes store: "fs E (KEY_STORE_PATH E) = Content (JsonText (JObj (xs @ kv # ys)))"
    and ok: "list_all2 (\<lambda>kv tok. entry_token L kv = Inr tok) xs toks"
    and bad: "lacks_private_exponent (snd kv) \<or> isl (entry_token L kv)"
  shows "exit_status (snd (main L E)) \<noteq> 0
       \<and> fst (main L E)
           = [Out (intro_line E @ newline @ newline), OpenFile (KEY_STORE_PATH E)] @ printed xs toks
       \<and> stdout (fst (main L E))
           = intro_line E @ newline @ newline
             @ concat (map2 (\<lambda>kv tok. token_line (fst kv) tok @ newline) xs toks)"
proof -
  from bad have "isl (entry_token L kv)" using lacking_exponent_fails by blast
  then obtain e where e: "entry_token L kv = Inl e" by (cases "entry_token L kv") auto
  have "main L E = ([Out (intro_line E @ newline @ newline), OpenFile (KEY_STORE_PATH E)]
                     @ printed xs toks, Inl e)"
    unfolding main_object [OF store] main_loop_prefix [OF ok] main_loop_cons
    by (simp add: e)
  then show ?thesis
    by (simp add: exit_status_def stdout_simps stdout_printed)
qed


theorem failing_entry_stops_run_witness:
  "fs (demo_env (Content (JsonText (JObj ([(''k1'', demo_key)] @ (''k2'', demo_public_key) # [(''k3'', demo_key)])))))
      (KEY_STORE_PATH (demo_env (Content (JsonText (JObj ([(''k1'', demo_key)] @ (''k2'', demo_public_key) # [(''k3'', demo_key)]))))))
     = Content (JsonText (JObj ([(''k1'', demo_key)] @ (''k2'', demo_public_key) # [(''k3'', demo_key)])))
   \<and> list_all2 (\<lambda>kv tok. entry_token demo_lib kv = Inr tok) [(''k1'', demo_key)] [''e30.e30.c2ln'']
   \<and> lacks_private_exponent (snd (''k2'', demo_public_key))
   \<and> exit_status (snd (main demo_lib (demo_env (Content (JsonText (JObj ([(''k1'', demo_key)] @ (''k2'', demo_public_key) # [(''k3'', demo_key)]))))))) \<noteq> 0
   \<and> splitlines (stdout (fst (main demo_lib (demo_env (Content (JsonText (JObj ([(''k1'', demo_key)] @ (''k2'', demo_public_key) # [(''k3'', demo_key)]))))))))
       = [''Generating JWTs using keys discovered in /repo/test_data/mock_private_keys.json'', [],
          '' - k1: e30.e30.c2ln'']"
proof -
  let ?E = "demo_env (Content (JsonText (JObj ([(''k1'', demo_key)] @ (''k2'', demo_public_key) # [(''k3'', demo_key)]))))"
  have h1: "fs ?E (KEY_STORE_PATH ?E)
      = Content (JsonText (JObj ([(''k1'', demo_key)] @ (''k2'', demo_public_key) # [(''k3'', demo_key)])))"
    by (rule demo_file)
  have t: "entry_token demo_lib (''k1'', demo_key) = Inr ''e30.e30.c2ln''"
    by (rule demo_entry_token)
  have h2: "list_all2 (\<lambda>kv tok. entry_token demo_lib kv = Inr tok) [(''k1'', demo_key)] [''e30.e30.c2ln'']"
    using t by simp
  have h3: "lacks_private_exponent (snd (''k2'', demo_public_key))"
    by (simp add: lacks_private_exponent_def demo_public_key_def)
  note th = failing_entry_stops_run [OF h1 h2 disjI1 [OF h3]]
  have s: "stdout (fst (main demo_lib ?E))
      = ''Generating JWTs using keys discovered in /repo/test_data/mock_private_keys.json''
        @ newline @ newline @ '' - k1: e30.e30.c2ln'' @ newline"
    unfolding th [THEN conjunct2, THEN conjunct2] by (simp add: demo_intro token_line_def)
  have l: "splitlines (''Generating JWTs using keys discovered in /repo/test_data/mock_private_keys.json''
        @ newline @ newline @ '' - k1: e30.e30.c2ln'' @ newline)
      = [''Generating JWTs using keys discovered in /repo/test_data/mock_private_keys.json'', [],
          '' - k1: e30.e30.c2ln'']"
    by (simp add: newline_def splitlines_def)
  have x: "exit_status (snd (main demo_lib ?E)) \<noteq> 0"
    by (rule th [THEN conjunct1])
  show ?thesis
    unfolding s l using h1 h2 h3 x by blast
qed

text \<open>
  C3, as amended: for a key store with N entries that all parse and sign, the run ends
  with exit status 0 and standard output is the introductory line, one empty line (the
  introductory text ends with a line break of its own) and one token line for every
  entry; when neither the path nor an identifier contains a line break these are
  exactly N + 2 lines.
\<close>

theorem well_formed_run_output:
  assumes store: "fs E (KEY_STORE_PATH E) = Content (JsonText (JObj its))"
    and ok: "list_all2 (\<lambda>kv tok. entry_token L kv = Inr tok) its toks"
  shows "exit_status (snd (main L E)) = 0
       \<and> stdout (fst (main L E))
           = intro_line E @ newline @ newline
             @ concat (map2 (\<lambda>kv tok. token_line (fst kv) tok @ newline) its toks)
       \<and> (CHR 0x0A \<notin> set (intro_line E) \<and> (\<forall>kv \<in> set its. CHR 0x0A \<notin> set (fst kv)) \<longrightarrow>
            splitlines (stdout (fst (main L E)))
              = intro_line E # [] # map2 (\<lambda>kv tok. token_line (fst kv) tok) its toks
            \<and> length (splitlines (stdout (fst (main L E)))) = length its + 2)"
proof -
  have m: "main L E = ([Out (intro_line E @ newline @ newline), OpenFile (KEY_STORE_PATH E)]
                     @ printed its toks, Inr ())"
    using main_loop_prefix [OF ok, of E "[]"] unfolding main_object [OF store]
    by simp
  have out: "stdout (fst (main L E))
           = intro_line E @ newline @ newline
             @ concat (map2 (\<lambda>kv tok. token_line (fst kv) tok @ newline) its toks)"
    unfolding m by (simp add: stdout_simps stdout_printed)
  have ex: "exit_status (snd (main L E)) = 0"
    unfolding m by (simp add: exit_status_def)
  have len: "length toks = length its" using ok by (simp add: list_all2_lengthD)
  let ?ls = "intro_line E # [] # map2 (\<lambda>kv tok. token_line (fst kv) tok) its toks"
  have lines: "CHR 0x0A \<notin> set (intro_line E) \<and> (\<forall>kv \<in> set its. CHR 0x0A \<notin> set (fst kv)) \<longrightarrow>
            splitlines (stdout (fst (main L E))) = ?ls
            \<and> length (splitlines (stdout (fst (main L E)))) = length its + 2"
  proof (intro impI)
    assume nl: "CHR 0x0A \<notin> set (intro_line E) \<and> (\<forall>kv \<in> set its. CHR 0x0A \<notin> set (fst kv))"
    have "\<forall>l \<in> set ?ls. CHR 0x0A \<notin> set l"
      using nl token_lines_no_newline [OF ok] by simp
    then have "splitlines (concat (map (\<lambda>l. l @ newline) ?ls)) = ?ls"
      by (rule splitlines_concat)
    moreover have "concat (map (\<lambda>l. l @ newline) ?ls) = stdout (fst (main L E))"
      unfolding out concat_token_lines by simp
    ultimately have sl: "splitlines (stdout (fst (main L E))) = ?ls" by simp
    have "length ?ls = length its + 2" using len by simp
    then show "splitlines (stdout (fst (main L E))) = ?ls
       \<and> length (splitlines (stdout (fst (main L E)))) = length its + 2"
      unfolding sl by blast
  qed
  show ?thesis using ex out lines by blast
qed


theorem well_formed_run_output_witness:
  "fs (demo_env (Content (JsonText (JObj [(''k1'', demo_key), (''k2'', demo_key)]))))
      (KEY_STORE_PATH (demo_env (Content (JsonText (JObj [(''k1'', demo_key), (''k2'', demo_key)])))))
     = Content (JsonText (JObj [(''k1'', demo_key), (''k2'', demo_key)]))
   \<and> list_all2 (\<lambda>kv tok. entry_token demo_lib kv = Inr tok)
        [(''k1'', demo_key), (''k2'', demo_key)] [''e30.e30.c2ln'', ''e30.e30.c2ln'']
   \<and> exit_status (snd (main demo_lib
         (demo_env (Content (JsonText (JObj [(''k1'', demo_key), (''k2'', demo_key)])))))) = 0
   \<and> splitlines (stdout (fst (main demo_lib
         (demo_env (Content (JsonText (JObj [(''k1'', demo_key), (''k2'', demo_key)])))))))
       = [''Generating JWTs using keys discovered in /repo/test_data/mock_private_keys.json'', [],
          '' - k1: e30.e30.c2ln'', '' - k2: e30.e30.c2ln'']"
proof -
  let ?E = "demo_env (Content (JsonText (JObj [(''k1'', demo_key), (''k2'', demo_key)])))"
  have h1: "fs ?E (KEY_STORE_PATH ?E) = Content (JsonText (JObj [(''k1'', demo_key), (''k2'', demo_key)]))"
    by (rule demo_file)
  have h2: "list_all2 (\<lambda>kv tok. entry_token demo_lib kv = Inr tok)
        [(''k1'', demo_key), (''k2'', demo_key)] [''e30.e30.c2ln'', ''e30.e30.c2ln'']"
    by (simp add: demo_entry_token)
  note th = well_formed_run_output [OF h1 h2]
  have h3: "CHR 0x0A \<notin> set (intro_line ?E)
      \<and> (\<forall>kv \<in> set [(''k1'', demo_key), (''k2'', demo_key)]. CHR 0x0A \<notin> set (fst kv))"
    by (simp add: demo_intro)
  have l: "splitlines (stdout (fst (main demo_lib ?E)))
       = [''Generating JWTs using keys discovered in /repo/test_data/mock_private_keys.json'', [],
          '' - k1: e30.e30.c2ln'', '' - k2: e30.e30.c2ln'']"
    using th [THEN conjunct2, THEN conjunct2, THEN mp, OF h3, THEN conjunct1]
    by (simp add: demo_intro token_line_def)
  show ?thesis
    using h1 h2 th [THEN conjunct1] l by blast
qed

text \<open>
  C3, as stated, fails: with one well-formed entry standard output has three lines, the
  introductory line, an empty line and the token line, not two.
\<close>

theorem header_and_token_lines_only_counterexample:
  "list_all2 (\<lambda>kv tok. entry_token demo_lib kv = Inr tok) [(''k1'', demo_key)] [''e30.e30.c2ln'']
   \<and> snd (main demo_lib (demo_env (Content (JsonText (JObj [(''k1'', demo_key)]))))) = Inr ()
   \<and> splitlines (stdout (fst (main demo_lib
         (demo_env (Content (JsonText (JObj [(''k1'', demo_key)])))))))
       = [''Generating JWTs using keys discovered in /repo/test_data/mock_private_keys.json'', [],
          '' - k1: e30.e30.c2ln'']
   \<and> length (splitlines (stdout (fst (main demo_lib
         (demo_env (Content (JsonText (JObj [(''k1'', demo_key)]))))))))
       \<noteq> length [(''k1'', demo_key)] + 1"
proof -
  have s: "stdout (fst (main demo_lib (demo_env (Content (JsonText (JObj [(''k1'', demo_key)]))))))
      = ''Generating JWTs using keys discovered in /repo/test_data/mock_private_keys.json''
        @ newline @ newline @ '' - k1: e30.e30.c2ln'' @ newline"
    unfolding demo_run_one by (simp add: stdout_simps)
  have r: "snd (main demo_lib (demo_env (Content (JsonText (JObj [(''k1'', demo_key)]))))) = Inr ()"
    unfolding demo_run_one by simp
  show ?thesis
    unfolding s demo_lines_one r by (simp add: demo_entry_token)
qed




text \<open>
  C5: for a key store whose document is an object with entries that are all accepted as
  JWKs, resuming the generator of \<^verbatim>\<open>load_private_keys\<close> until it stops gives one pair for
  every entry, with the identifiers in the order of the document, and then stops
  (finite).  It is lazy: a resumption parses the next entry only and touches no file.
  It is single-pass: once exhausted it yields nothing more.
\<close>

theorem load_private_keys_sequence:
  assumes store: "fs E (KEY_STORE_PATH E) = Content (JsonText (JObj its))"
    and loads: "list_all2 (\<lambda>kv key. JWK_from_json L (json_dumps (snd kv)) = Inr key) its keys"
  shows "drain L E load_private_keys tr = (zip (map fst its) keys, StopIteration, Exhausted)
       \<and> length (fst (drain L E load_private_keys tr)) = length its
       \<and> map fst (fst (drain L E load_private_keys tr)) = map fst its
       \<and> (\<forall>n. n < length its \<longrightarrow>
            gen_next L E (Suspended (drop n its)) tr
              = ((Yield (fst (its ! n)) (keys ! n), Suspended (drop (Suc n) its)), tr))
       \<and> drain L E Exhausted tr = ([], StopIteration, Exhausted)"
proof -
  have len: "length keys = length its" using loads by (simp add: list_all2_lengthD)
  have d: "drain L E load_private_keys tr = (zip (map fst its) keys, StopIteration, Exhausted)"
    unfolding load_private_keys_def drain_created [OF store] by (rule drain_all [OF loads])
  have step: "\<forall>n. n < length its \<longrightarrow>
            gen_next L E (Suspended (drop n its)) tr
              = ((Yield (fst (its ! n)) (keys ! n), Suspended (drop (Suc n) its)), tr)"
  proof (intro allI impI)
    fix n assume n: "n < length its"
    then have "JWK_from_json L (json_dumps (snd (its ! n))) = Inr (keys ! n)"
      using list_all2_nthD [OF loads n] by simp
    moreover have "drop n its = its ! n # drop (Suc n) its"
      using n by (simp add: Cons_nth_drop_Suc)
    ultimately show "gen_next L E (Suspended (drop n its)) tr
              = ((Yield (fst (its ! n)) (keys ! n), Suspended (drop (Suc n) its)), tr)"
      by (cases "its ! n") simp
  qed
  show ?thesis
    unfolding d using len step by (simp add: drain_exhausted del: drain.simps gen_next.simps)
qed


theorem load_private_keys_sequence_witness:
  "fs (demo_env (Content (JsonText (JObj [(''k1'', demo_key), (''k2'', demo_public_key)]))))
      (KEY_STORE_PATH (demo_env (Content (JsonText (JObj [(''k1'', demo_key), (''k2'', demo_public_key)])))))
     = Content (JsonText (JObj [(''k1'', demo_key), (''k2'', demo_public_key)]))
   \<and> list_all2 (\<lambda>kv key. JWK_from_json demo_lib (json_dumps (snd kv)) = Inr key)
        [(''k1'', demo_key), (''k2'', demo_public_key)]
        [[(''kty'', JStr ''RSA''), (''n'', JStr ''AQAB''), (''e'', JStr ''AQAB''), (''d'', JStr ''AQAB'')],
         [(''kty'', JStr ''RSA''), (''n'', JStr ''AQAB''), (''e'', JStr ''AQAB'')]]
   \<and> drain demo_lib
        (demo_env (Content (JsonText (JObj [(''k1'', demo_key), (''k2'', demo_public_key)]))))
        load_private_keys []
       = ([(''k1'', [(''kty'', JStr ''RSA''), (''n'', JStr ''AQAB''), (''e'', JStr ''AQAB''),
                     (''d'', JStr ''AQAB'')]),
           (''k2'', [(''kty'', JStr ''RSA''), (''n'', JStr ''AQAB''), (''e'', JStr ''AQAB'')])],
          StopIteration, Exhausted)"
proof -
  let ?E = "demo_env (Content (JsonText (JObj [(''k1'', demo_key), (''k2'', demo_public_key)])))"
  have h1: "fs ?E (KEY_STORE_PATH ?E)
      = Content (JsonText (JObj [(''k1'', demo_key), (''k2'', demo_public_key)]))"
    by (rule demo_file)
  have h2: "list_all2 (\<lambda>kv key. JWK_from_json demo_lib (json_dumps (snd kv)) = Inr key)
        [(''k1'', demo_key), (''k2'', demo_public_key)]
        [[(''kty'', JStr ''RSA''), (''n'', JStr ''AQAB''), (''e'', JStr ''AQAB''), (''d'', JStr ''AQAB'')],
         [(''kty'', JStr ''RSA''), (''n'', JStr ''AQAB''), (''e'', JStr ''AQAB'')]]"
    by (simp add: demo_loads)
  have "drain demo_lib ?E load_private_keys []
       = ([(''k1'', [(''kty'', JStr ''RSA''), (''n'', JStr ''AQAB''), (''e'', JStr ''AQAB''),
                     (''d'', JStr ''AQAB'')]),
           (''k2'', [(''kty'', JStr ''RSA''), (''n'', JStr ''AQAB''), (''e'', JStr ''AQAB'')])],
          StopIteration, Exhausted)"
    unfolding load_private_keys_sequence [OF h1 h2, of "[]", THEN conjunct1] by simp
  then show ?thesis using h1 h2 by blast
qed

text \<open>
  C1: for every identifier and every RSA private key that the signature primitive
  accepts, \<^verbatim>\<open>sign_mock_jwt\<close> returns three base64url segments joined by dots; splitting
  the result at the dots gives the three segments back; the first decodes to the JSON
  text of the header with \<^verbatim>\<open>alg\<close> RS256 and \<^verbatim>\<open>kid\<close> the identifier, the second to
  the JSON text of the fixed payload, whatever the key, and the third to the signature
  of the first two segments.
\<close>

theorem sign_mock_jwt_compact:
  assumes rsa: "is_rsa key" and priv: "has_private_exponent key"
    and signs: "\<forall>m. rs256 L key m \<noteq> None"
  shows "\<exists>s1 s2 s3.
           sign_mock_jwt L key_id key = Inr (s1 @ ''.'' @ s2 @ ''.'' @ s3)
         \<and> split_on (CHR ''.'') (s1 @ ''.'' @ s2 @ ''.'' @ s3) = [s1, s2, s3]
         \<and> base64url_decode s1
             = Some (json_encode L (JObj [(''alg'', JStr ''RS256''), (''kid'', JStr key_id)]))
         \<and> base64url_decode s2
             = Some (json_encode L (JObj [(''foo'', JStr ''bar''), (''bin'', JStr ''baz'')]))
         \<and> base64url_decode s3 = rs256 L key (s1 @ ''.'' @ s2)"
proof -
  let ?s1 = "base64url_encode (json_encode L (JObj [(''alg'', JStr ''RS256''), (''kid'', JStr key_id)]))"
  let ?s2 = "base64url_encode (json_encode L (JObj [(''foo'', JStr ''bar''), (''bin'', JStr ''baz'')]))"
  obtain sg where sg: "rs256 L key (?s1 @ ''.'' @ ?s2) = Some sg"
    using signs by blast
  let ?s3 = "base64url_encode sg"
  have tok: "sign_mock_jwt L key_id key = Inr (?s1 @ ''.'' @ ?s2 @ ''.'' @ ?s3)"
    using rsa priv sg
    by (simp add: sign_mock_jwt_def make_signed_token_def JWT_def serialize_def Let_def
          del: base64url_encode.simps)
  have sp: "split_on (CHR ''.'') (?s1 @ ''.'' @ ?s2 @ ''.'' @ ?s3) = [?s1, ?s2, ?s3]"
    using split_on_three [OF base64url_encode_no_dot base64url_encode_no_dot base64url_encode_no_dot]
    by simp
  have d3: "base64url_decode ?s3 = rs256 L key (?s1 @ ''.'' @ ?s2)"
    unfolding sg by (rule base64url_roundtrip)
  show ?thesis
    using tok sp d3 base64url_roundtrip [of "json_encode L (JObj [(''alg'', JStr ''RS256''), (''kid'', JStr key_id)])"]
      base64url_roundtrip [of "json_encode L (JObj [(''foo'', JStr ''bar''), (''bin'', JStr ''baz'')])"]
    by blast
qed


theorem sign_mock_jwt_compact_witness:
  "is_rsa [(''kty'', JStr ''RSA''), (''n'', JStr ''AQAB''), (''e'', JStr ''AQAB''), (''d'', JStr ''AQAB'')]
   \<and> has_private_exponent
        [(''kty'', JStr ''RSA''), (''n'', JStr ''AQAB''), (''e'', JStr ''AQAB''), (''d'', JStr ''AQAB'')]
   \<and> (\<forall>m. rs256 demo_json_lib
          [(''kty'', JStr ''RSA''), (''n'', JStr ''AQAB''), (''e'', JStr ''AQAB''), (''d'', JStr ''AQAB'')] m
        \<noteq> None)
   \<and> sign_mock_jwt demo_json_lib ''k1''
        [(''kty'', JStr ''RSA''), (''n'', JStr ''AQAB''), (''e'', JStr ''AQAB''), (''d'', JStr ''AQAB'')]
       = Inr ''eyJhbGciOiJSUzI1NiIsImtpZCI6ImsxIn0.eyJmb28iOiJiYXIiLCJiaW4iOiJiYXoifQ.c2ln''
   \<and> base64url_decode ''eyJhbGciOiJSUzI1NiIsImtpZCI6ImsxIn0'' = Some demo_header_text
   \<and> base64url_decode ''eyJmb28iOiJiYXIiLCJiaW4iOiJiYXoifQ'' = Some demo_payload_text
   \<and> base64url_decode ''c2ln'' = Some ''sig''"
proof -
  let ?K = "[(''kty'', JStr ''RSA''), (''n'', JStr ''AQAB''), (''e'', JStr ''AQAB''), (''d'', JStr ''AQAB'')]"
  let ?T = "''eyJhbGciOiJSUzI1NiIsImtpZCI6ImsxIn0.eyJmb28iOiJiYXIiLCJiaW4iOiJiYXoifQ.c2ln''"
  have h1: "is_rsa ?K" by (simp add: is_rsa_def)
  have h2: "has_private_exponent ?K" by (simp add: has_private_exponent_def)
  have h3: "\<forall>m. rs256 demo_json_lib ?K m \<noteq> None"
    by (simp add: demo_json_lib_def demo_lib_def)
  obtain s1 s2 s3 where
    t: "sign_mock_jwt demo_json_lib ''k1'' ?K = Inr (s1 @ ''.'' @ s2 @ ''.'' @ s3)"
    and sp: "split_on (CHR ''.'') (s1 @ ''.'' @ s2 @ ''.'' @ s3) = [s1, s2, s3]"
    and d1: "base64url_decode s1
        = Some (json_encode demo_json_lib (JObj [(''alg'', JStr ''RS256''), (''kid'', JStr ''k1'')]))"
    and d2: "base64url_decode s2
        = Some (json_encode demo_json_lib (JObj [(''foo'', JStr ''bar''), (''bin'', JStr ''baz'')]))"
    and d3: "base64url_decode s3 = rs256 demo_json_lib ?K (s1 @ ''.'' @ s2)"
    using sign_mock_jwt_compact [OF h1 h2 h3, of "''k1''"] by blast
  have e: "s1 @ ''.'' @ s2 @ ''.'' @ s3 = ?T"
    using t unfolding demo_json_sign by simp
  have "split_on (CHR ''.'') ?T
      = [''eyJhbGciOiJSUzI1NiIsImtpZCI6ImsxIn0'', ''eyJmb28iOiJiYXIiLCJiaW4iOiJiYXoifQ'', ''c2ln'']"
    by simp
  then have s: "s1 = ''eyJhbGciOiJSUzI1NiIsImtpZCI6ImsxIn0''"
      "s2 = ''eyJmb28iOiJiYXIiLCJiaW4iOiJiYXoifQ''" "s3 = ''c2ln''"
    using sp unfolding e by simp_all
  have d3': "base64url_decode ''c2ln'' = Some ''sig''"
    using d3 unfolding s by (simp add: demo_json_lib_def demo_lib_def)
  show ?thesis
    using h1 h2 h3 demo_json_sign d1 [unfolded s demo_json_header]
      d2 [unfolded s demo_json_payload] d3'
    by blast
qed

text \<open>
  C10: the key-store path is the directory of the script file, resolved, followed by
  \<^verbatim>\<open>test_data/mock_private_keys.json\<close>.  Two starts of the same script from different
  working directories (the interpreter gives \<^verbatim>\<open>__file__\<close> relative to the working
  directory of the start, or absolute) compute the same path and, on the same files,
  run alike.
\<close>

theorem key_store_path_from_script_dir:
  assumes "parts (script_file E) \<noteq> []" "is_file_name (last (parts (script_file E)))"
    and "parts (script_file E') \<noteq> []" "is_file_name (last (parts (script_file E')))"
    and same: "resolve (cwd E') (script_file E') = resolve (cwd E) (script_file E)"
    and files: "fs E' = fs E"
  shows "KEY_STORE_PATH E
           = butlast (resolve (cwd E) (script_file E)) @ [''test_data'', ''mock_private_keys.json'']
       \<and> KEY_STORE_PATH E' = KEY_STORE_PATH E
       \<and> main L E' = main L E"
proof -
  have a: "KEY_STORE_PATH E
      = butlast (resolve (cwd E) (script_file E)) @ [''test_data'', ''mock_private_keys.json'']"
    using assms(1,2) by (simp add: KEY_STORE_PATH_def PROJECT_DIR_def resolve_dirname)
  have b: "KEY_STORE_PATH E'
      = butlast (resolve (cwd E') (script_file E')) @ [''test_data'', ''mock_private_keys.json'']"
    using assms(3,4) by (simp add: KEY_STORE_PATH_def PROJECT_DIR_def resolve_dirname)
  have c: "KEY_STORE_PATH E' = KEY_STORE_PATH E" unfolding a b same ..
  have "main L E' = main L E"
    unfolding main_def c using main_loop_env [OF c files] by simp
  then show ?thesis using a c by blast
qed


theorem key_store_path_from_script_dir_witness:
  "parts (script_file (demo_env Absent)) \<noteq> []
   \<and> is_file_name (last (parts (script_file (demo_env Absent))))
   \<and> parts (script_file \<lparr>cwd = [''home'', ''user''],
          script_file = \<lparr>anchored = False, parts = [''..'', ''..'', ''repo'', ''generate_mock_jwts.py'']\<rparr>,
          fs = demo_fs Absent\<rparr>) \<noteq> []
   \<and> is_file_name (last (parts (script_file \<lparr>cwd = [''home'', ''user''],
          script_file = \<lparr>anchored = False, parts = [''..'', ''..'', ''repo'', ''generate_mock_jwts.py'']\<rparr>,
          fs = demo_fs Absent\<rparr>)))
   \<and> resolve [''home'', ''user'']
         \<lparr>anchored = False, parts = [''..'', ''..'', ''repo'', ''generate_mock_jwts.py'']\<rparr>
       = resolve (cwd (demo_env Absent)) (script_file (demo_env Absent))
   \<and> KEY_STORE_PATH \<lparr>cwd = [''home'', ''user''],
          script_file = \<lparr>anchored = False, parts = [''..'', ''..'', ''repo'', ''generate_mock_jwts.py'']\<rparr>,
          fs = demo_fs Absent\<rparr>
       = [''repo'', ''test_data'', ''mock_private_keys.json'']
   \<and> main demo_lib \<lparr>cwd = [''home'', ''user''],
          script_file = \<lparr>anchored = False, parts = [''..'', ''..'', ''repo'', ''generate_mock_jwts.py'']\<rparr>,
          fs = demo_fs Absent\<rparr>
       = main demo_lib (demo_env Absent)"
proof -
  let ?E' = "\<lparr>cwd = [''home'', ''user''],
          script_file = \<lparr>anchored = False, parts = [''..'', ''..'', ''repo'', ''generate_mock_jwts.py'']\<rparr>,
          fs = demo_fs Absent\<rparr>"
  have h1: "parts (script_file (demo_env Absent)) \<noteq> []"
    and h2: "is_file_name (last (parts (script_file (demo_env Absent))))"
    by (simp_all add: demo_env_def is_file_name_def)
  have h3: "parts (script_file ?E') \<noteq> []" and h4: "is_file_name (last (parts (script_file ?E')))"
    by (simp_all add: is_file_name_def)
  have h5: "resolve (cwd ?E') (script_file ?E')
      = resolve (cwd (demo_env Absent)) (script_file (demo_env Absent))"
    by (simp add: resolve_def demo_env_def)
  have h6: "fs ?E' = fs (demo_env Absent)" by (simp add: demo_env_def)
  note th = key_store_path_from_script_dir [OF h1 h2 h3 h4 h5 h6, of demo_lib]
  have k: "KEY_STORE_PATH ?E' = [''repo'', ''test_data'', ''mock_private_keys.json'']"
    using th [THEN conjunct2, THEN conjunct1] by (simp only: demo_path)
  have r: "resolve [''home'', ''user'']
         \<lparr>anchored = False, parts = [''..'', ''..'', ''repo'', ''generate_mock_jwts.py'']\<rparr>
       = resolve (cwd (demo_env Absent)) (script_file (demo_env Absent))"
    using h5 by simp
  show ?thesis
    using h1 h2 h3 h4 r k th [THEN conjunct2, THEN conjunct2] by blast
qed

end
